theory Spec2Isabelle
  imports
    Complex_Main
    "HOL-Library.Char_ord"
    "HOL-Library.List_Lexorder"
    "HOL-Library.Product_Lexorder"
    "HOL-Library.Multiset"
begin

section \<open>Decimal text\<close>

text \<open>
  Python's \<^verbatim>\<open>str(i)\<close>, the format specification \<^verbatim>\<open>0wd\<close> and the C-style
  \<^verbatim>\<open>%04d\<close> of \<^verbatim>\<open>date.isoformat\<close> all print the decimal digits of an integer,
  most significant first, with a leading minus sign for a negative number and zeros
  filled in after the sign up to the width.
\<close>

definition digit_char :: "nat \<Rightarrow> char" where
  "digit_char n = char_of (48 + n)"

fun digits_of :: "nat \<Rightarrow> string" where
  "digits_of n = (if n < 10 then [digit_char n] else digits_of (n div 10) @ [digit_char (n mod 10)])"

declare digits_of.simps [simp del]

definition zfill :: "nat \<Rightarrow> string \<Rightarrow> string" where
  "zfill w s = replicate (w - length s) (CHR ''0'') @ s"

definition str_int :: "int \<Rightarrow> string" where
  "str_int i = (if i < 0 then CHR ''-'' # digits_of (nat (- i)) else digits_of (nat i))"

definition fmt_0d :: "nat \<Rightarrow> int \<Rightarrow> string" where
  "fmt_0d w i =
     (if i < 0 then CHR ''-'' # zfill (w - 1) (digits_of (nat (- i)))
      else zfill w (digits_of (nat i)))"

definition is_digit :: "char \<Rightarrow> bool" where
  "is_digit c = (48 \<le> (of_char c :: nat) \<and> (of_char c :: nat) \<le> 57)"

definition digit_val :: "char \<Rightarrow> nat" where
  "digit_val c = of_char c - 48"

definition nat_of_digits :: "string \<Rightarrow> nat" where
  "nat_of_digits s = foldl (\<lambda>a c. 10 * a + digit_val c) 0 s"


section \<open>Binary64 floating point\<close>

text \<open>
  A Python \<^verbatim>\<open>float\<close> is an IEEE 754 binary64 value. A finite value is kept as the
  rational number it denotes (\<open>Fin 0\<close> is \<open>+0.0\<close>); the negative zero, the two
  infinities and NaN are constructors of their own. Every operation computes the exact
  rational result and rounds it to the nearest binary64 value, ties to the even
  significand, which is what the hardware does.
\<close>

datatype double = Fin rat | NegZero | PInf | NInf | NaN

definition pow2 :: "int \<Rightarrow> rat" where
  "pow2 e = (if 0 \<le> e then 2 ^ nat e else 1 / 2 ^ nat (- e))"

function bit_length :: "int \<Rightarrow> nat" where
  "bit_length a = (if a \<le> 0 then 0 else Suc (bit_length (a div 2)))"
  by pat_completeness auto
termination
  by (relation "measure nat") auto

declare bit_length.simps [simp del]

text \<open>\<open>ilog2 q\<close> is \<open>\<lfloor>log\<^sub>2 q\<rfloor>\<close> for a positive rational \<open>q\<close>.\<close>

definition ilog2 :: "rat \<Rightarrow> int" where
  "ilog2 q =
     (if 1 \<le> q then int (bit_length \<lfloor>q\<rfloor>) - 1
      else - int (bit_length (\<lceil>1 / q\<rceil> - 1)))"

definition round_half_even :: "rat \<Rightarrow> int" where
  "round_half_even r =
     (let f = \<lfloor>r\<rfloor>; d = r - of_int f
      in if d < 1 / 2 then f
         else if 1 / 2 < d then f + 1
         else if even f then f else f + 1)"

text \<open>
  Rounding a non-zero rational to binary64: the significand has 53 bits, the least
  exponent of a normal number is \<open>-1022\<close> (below it the spacing stays \<open>2\<^sup>-\<^sup>1\<^sup>0\<^sup>7\<^sup>4\<close>), and a
  rounded magnitude of \<open>2\<^sup>1\<^sup>0\<^sup>2\<^sup>4\<close> or more overflows to an infinity.
\<close>

definition round_double :: "rat \<Rightarrow> double" where
  "round_double q =
     (if q = 0 then Fin 0
      else
        let e = max (ilog2 \<bar>q\<bar>) (- 1022) - 52;
            m = round_half_even (\<bar>q\<bar> / pow2 e);
            v = of_int m * pow2 e
        in if pow2 1024 \<le> v then (if 0 < q then PInf else NInf)
           else if v = 0 then (if 0 < q then Fin 0 else NegZero)
           else Fin (if 0 < q then v else - v))"

definition is_nan :: "double \<Rightarrow> bool" where
  "is_nan x = (x = NaN)"

definition is_zero :: "double \<Rightarrow> bool" where
  "is_zero x = (x = Fin 0 \<or> x = NegZero)"

definition sign_bit :: "double \<Rightarrow> bool" where
  "sign_bit x = (case x of Fin q \<Rightarrow> q < 0 | NegZero \<Rightarrow> True | PInf \<Rightarrow> False | NInf \<Rightarrow> True | NaN \<Rightarrow> False)"

fun fneg :: "double \<Rightarrow> double" where
  "fneg (Fin q) = (if q = 0 then NegZero else Fin (- q))"
| "fneg NegZero = Fin 0"
| "fneg PInf = NInf"
| "fneg NInf = PInf"
| "fneg NaN = NaN"

fun fabs :: "double \<Rightarrow> double" where
  "fabs (Fin q) = Fin \<bar>q\<bar>"
| "fabs NegZero = Fin 0"
| "fabs PInf = PInf"
| "fabs NInf = PInf"
| "fabs NaN = NaN"

fun fadd :: "double \<Rightarrow> double \<Rightarrow> double" where
  "fadd NaN y = NaN"
| "fadd x NaN = NaN"
| "fadd PInf NInf = NaN"
| "fadd NInf PInf = NaN"
| "fadd PInf y = PInf"
| "fadd x PInf = PInf"
| "fadd NInf y = NInf"
| "fadd x NInf = NInf"
| "fadd NegZero y = y"
| "fadd x NegZero = x"
| "fadd (Fin a) (Fin b) = round_double (a + b)"

definition fsub :: "double \<Rightarrow> double \<Rightarrow> double" where
  "fsub x y = fadd x (fneg y)"

text \<open>
  Division of two values neither of which is a zero of the divisor (Python raises before
  the hardware divides by zero, see \<open>py_truediv\<close>).
\<close>

definition signed_zero :: "bool \<Rightarrow> double" where
  "signed_zero neg = (if neg then NegZero else Fin 0)"

definition signed_inf :: "bool \<Rightarrow> double" where
  "signed_inf neg = (if neg then NInf else PInf)"

definition is_inf :: "double \<Rightarrow> bool" where
  "is_inf x = (x = PInf \<or> x = NInf)"

definition fdiv :: "double \<Rightarrow> double \<Rightarrow> double" where
  "fdiv x y =
     (if is_nan x \<or> is_nan y then NaN
      else if is_inf x then (if is_inf y then NaN else signed_inf (sign_bit x \<noteq> sign_bit y))
      else if is_inf y then signed_zero (sign_bit x \<noteq> sign_bit y)
      else if is_zero x then signed_zero (sign_bit x \<noteq> sign_bit y)
      else (case (x, y) of (Fin a, Fin b) \<Rightarrow> round_double (a / b) | _ \<Rightarrow> NaN))"

text \<open>Comparisons: every comparison with NaN is false; the two zeros are equal.\<close>

fun flt :: "double \<Rightarrow> double \<Rightarrow> bool" where
  "flt NaN y = False"
| "flt x NaN = False"
| "flt PInf y = False"
| "flt x PInf = True"
| "flt NInf y = (y \<noteq> NInf)"
| "flt x NInf = False"
| "flt NegZero NegZero = False"
| "flt NegZero (Fin b) = (0 < b)"
| "flt (Fin a) NegZero = (a < 0)"
| "flt (Fin a) (Fin b) = (a < b)"

text \<open>
  \<^verbatim>\<open>format(x, ".2f")\<close>: the exact value rounded to two decimals, ties to even, printed
  with at least one digit before the point.
\<close>

definition fmt_2f :: "double \<Rightarrow> string" where
  "fmt_2f x =
     (case x of
        NaN \<Rightarrow> ''nan''
      | PInf \<Rightarrow> ''inf''
      | NInf \<Rightarrow> ''-inf''
      | NegZero \<Rightarrow> ''-0.00''
      | Fin q \<Rightarrow>
          (let n = nat (round_half_even (\<bar>q\<bar> * 100))
           in (if q < 0 then ''-'' else '''') @ digits_of (n div 100) @ ''.''
                @ zfill 2 (digits_of (n mod 100))))"


section \<open>models.py\<close>

text \<open>
  A \<^verbatim>\<open>datetime.date\<close> holds a year, a month and a day; the class accepts only the
  dates of the proleptic Gregorian calendar from year 1 to year 9999 (\<open>valid_date\<close>).
\<close>

record date =
  year :: nat
  month :: nat
  day :: nat

definition is_leap :: "nat \<Rightarrow> bool" where
  "is_leap y = (y mod 4 = 0 \<and> (y mod 100 \<noteq> 0 \<or> y mod 400 = 0))"

definition days_in_month :: "nat \<Rightarrow> nat \<Rightarrow> nat" where
  "days_in_month y m =
     (if m = 2 then (if is_leap y then 29 else 28)
      else if m = 4 \<or> m = 6 \<or> m = 9 \<or> m = 11 then 30 else 31)"

definition valid_date :: "date \<Rightarrow> bool" where
  "valid_date d =
     (1 \<le> year d \<and> year d \<le> 9999 \<and> 1 \<le> month d \<and> month d \<le> 12 \<and>
      1 \<le> day d \<and> day d \<le> days_in_month (year d) (month d))"

text \<open>\<^verbatim>\<open>date.isoformat()\<close> prints \<^verbatim>\<open>"%04d-%02d-%02d"\<close>.\<close>

definition isoformat :: "date \<Rightarrow> string" where
  "isoformat d =
     zfill 4 (digits_of (year d)) @ ''-'' @ zfill 2 (digits_of (month d)) @ ''-''
       @ zfill 2 (digits_of (day d))"

text \<open>
  Reading \<^verbatim>\<open>YYYY-MM-DD\<close> back. Both \<^verbatim>\<open>date.fromisoformat\<close> and SQLite's date functions
  accept this form; here every other string is rejected, as are strings that are not
  a calendar date.
\<close>

definition parse_iso_date :: "string \<Rightarrow> date option" where
  "parse_iso_date s =
     (if length s = 10 \<and> s ! 4 = CHR ''-'' \<and> s ! 7 = CHR ''-'' \<and>
         list_all is_digit (take 4 s) \<and> list_all is_digit (take 2 (drop 5 s)) \<and>
         list_all is_digit (drop 8 s)
      then
        let d = \<lparr>year = nat_of_digits (take 4 s),
                 month = nat_of_digits (take 2 (drop 5 s)),
                 day = nat_of_digits (drop 8 s)\<rparr>
        in if valid_date d then Some d else None
      else None)"

datatype error = ValueError | ZeroDivisionError | IntegrityError

definition fromisoformat :: "string \<Rightarrow> error + date" where
  "fromisoformat s = (case parse_iso_date s of None \<Rightarrow> Inl ValueError | Some d \<Rightarrow> Inr d)"

record expense =
  id' :: "int option"
  spender :: string
  date :: date
  shop :: string
  amount :: double


section \<open>compute.py\<close>

text \<open>
  \<^verbatim>\<open>x / y\<close> on floats raises \<^verbatim>\<open>ZeroDivisionError\<close> when \<open>y\<close> is a zero. The constants
  \<^verbatim>\<open>2.0\<close> and \<^verbatim>\<open>1e-6\<close> are the binary64 values nearest to the decimal literals.
\<close>

definition py_truediv :: "double \<Rightarrow> double \<Rightarrow> error + double" where
  "py_truediv x y = (if is_zero y then Inl ZeroDivisionError else Inr (fdiv x y))"

definition two :: double where
  "two = round_double 2"

definition tolerance :: double where
  "tolerance = round_double (1 / 10 ^ 6)"

text \<open>\<^verbatim>\<open>totals.get(key, 0.0)\<close>\<close>

definition get_or_zero :: "(string \<rightharpoonup> double) \<Rightarrow> string \<Rightarrow> double" where
  "get_or_zero totals k = (case totals k of None \<Rightarrow> Fin 0 | Some v \<Rightarrow> v)"

text \<open>
  The function with its division operator as a parameter: \<open>compute_balance_message\<close> is
  the instance at Python's \<^verbatim>\<open>/\<close>. A result \<open>Inl e\<close> is the exception \<open>e\<close> reaching the
  caller.
\<close>

definition balance_message_with ::
  "(double \<Rightarrow> double \<Rightarrow> error + double) \<Rightarrow> (string \<rightharpoonup> double) \<Rightarrow> error + string" where
  "balance_message_with truediv totals =
     (let shakib_total = get_or_zero totals ''Shakib'';
          junit_total = get_or_zero totals ''Junit'';
          total_spent = fadd shakib_total junit_total
      in if is_zero total_spent then Inr ''No expenses recorded for this period.''
         else
           case truediv total_spent two of
             Inl e \<Rightarrow> Inl e
           | Inr equal_share \<Rightarrow>
               let diff = fsub shakib_total equal_share
               in if flt (fabs diff) tolerance
                  then Inr ''Both Shakib and Junit have spent equally. No one owes anything.''
                  else if flt (Fin 0) diff
                  then Inr (''Junit owes Shakib '' @ fmt_2f diff @ ''$.'')
                  else Inr (''Shakib owes Junit '' @ fmt_2f (fneg diff) @ ''$.''))"

definition compute_balance_message :: "(string \<rightharpoonup> double) \<Rightarrow> error + string" where
  "compute_balance_message totals = balance_message_with py_truediv totals"


section \<open>db.py\<close>

text \<open>
  The table \<^verbatim>\<open>expenses\<close>: one record per row, the columns as the \<^verbatim>\<open>CREATE TABLE\<close>
  statement declares them, the rows in insertion order. \<open>seq\<close> is the largest row id
  handed out so far, which SQLite keeps for an \<^verbatim>\<open>AUTOINCREMENT\<close> key.
\<close>

record row =
  c_id :: int
  c_spender :: string
  c_date :: string
  c_shop :: string
  c_amount :: double

record store =
  rows :: "row list"
  seq :: int

definition empty_store :: store where
  "empty_store = \<lparr>rows = [], seq = 0\<rparr>"

definition next_rowid :: "store \<Rightarrow> int" where
  "next_rowid st = foldr max (map c_id (rows st)) (seq st) + 1"

text \<open>
  \<^verbatim>\<open>add\<close>: the \<^verbatim>\<open>INSERT\<close> names every column but \<^verbatim>\<open>id\<close>, so the key is assigned by the
  engine and \<^verbatim>\<open>expense.id\<close> is never read. SQLite binds a NaN as \<^verbatim>\<open>NULL\<close>, which the
  \<^verbatim>\<open>NOT NULL\<close> constraint of \<^verbatim>\<open>amount\<close> rejects: the statement raises and nothing is
  stored. The method has no \<^verbatim>\<open>return\<close>; its value \<^verbatim>\<open>None\<close> is in \<open>step\<close> below.
\<close>

definition add :: "store \<Rightarrow> expense \<Rightarrow> error + store" where
  "add st e =
     (if is_nan (amount e) then Inl IntegrityError
      else
        let i = next_rowid st
        in Inr \<lparr>rows = rows st @
                   [\<lparr>c_id = i, c_spender = spender e, c_date = isoformat (date e),
                     c_shop = shop e, c_amount = amount e\<rparr>],
                 seq = i\<rparr>)"

text \<open>
  \<^verbatim>\<open>_build_where_clause\<close>: each condition \<^verbatim>\<open>strftime(fmt, date) = ?\<close> is kept as the pair of
  its format and its parameter, in the order the code appends them.
\<close>

definition build_where_clause ::
  "int option \<Rightarrow> int option \<Rightarrow> int option \<Rightarrow> (string \<times> string) list" where
  "build_where_clause month_f year_f day_f =
     (case year_f of None \<Rightarrow> [] | Some y \<Rightarrow> [(''%Y'', str_int y)]) @
     (case month_f of None \<Rightarrow> [] | Some m \<Rightarrow> [(''%m'', fmt_0d 2 m)]) @
     (case day_f of None \<Rightarrow> [] | Some d \<Rightarrow> [(''%d'', fmt_0d 2 d)])"

text \<open>SQLite's \<^verbatim>\<open>strftime\<close> on a text date; \<open>None\<close> is \<^verbatim>\<open>NULL\<close>.\<close>

definition strftime :: "string \<Rightarrow> string \<Rightarrow> string option" where
  "strftime fmt s =
     (case parse_iso_date s of
        None \<Rightarrow> None
      | Some d \<Rightarrow>
          if fmt = ''%Y'' then Some (zfill 4 (digits_of (year d)))
          else if fmt = ''%m'' then Some (zfill 2 (digits_of (month d)))
          else if fmt = ''%d'' then Some (zfill 2 (digits_of (day d)))
          else None)"

text \<open>The conjunction of the conditions; a comparison with \<^verbatim>\<open>NULL\<close> is not true.\<close>

definition where_holds :: "(string \<times> string) list \<Rightarrow> row \<Rightarrow> bool" where
  "where_holds conds r = list_all (\<lambda>(fmt, p). strftime fmt (c_date r) = Some p) conds"

text \<open>
  \<^verbatim>\<open>ORDER BY date ASC, id DESC\<close>: the text column compares byte by byte, a proper prefix
  first, which is the lexicographic order of \<open>string\<close>.
\<close>

definition order_by_date_id :: "row list \<Rightarrow> row list" where
  "order_by_date_id rs = sort_key (\<lambda>r. (c_date r, - c_id r)) rs"

fun to_expenses :: "row list \<Rightarrow> error + expense list" where
  "to_expenses [] = Inr []"
| "to_expenses (r # rs) =
     (case fromisoformat (c_date r) of
        Inl e \<Rightarrow> Inl e
      | Inr d \<Rightarrow>
          (case to_expenses rs of
             Inl e \<Rightarrow> Inl e
           | Inr es \<Rightarrow>
               Inr (\<lparr>id' = Some (c_id r), spender = c_spender r, date = d,
                      shop = c_shop r, amount = c_amount r\<rparr> # es)))"

definition list_all_expenses ::
  "store \<Rightarrow> int option \<Rightarrow> int option \<Rightarrow> int option \<Rightarrow> error + expense list" where
  "list_all_expenses st month_f year_f day_f =
     to_expenses
       (order_by_date_id (filter (where_holds (build_where_clause month_f year_f day_f)) (rows st)))"

text \<open>
  \<^verbatim>\<open>get_totals\<close>. \<^verbatim>\<open>GROUP BY spender\<close> makes one group for each spender among the rows
  that pass the filter. What SQLite's \<^verbatim>\<open>SUM\<close> returns for the values of a group is not
  part of the repository: it is the parameter \<open>agg\<close> (\<open>None\<close> is \<^verbatim>\<open>NULL\<close>).
  \<^verbatim>\<open>total or 0.0\<close> replaces \<^verbatim>\<open>None\<close> and the zeros by \<open>0.0\<close>.
\<close>

definition group_by_spender :: "row list \<Rightarrow> (string \<times> double list) list" where
  "group_by_spender rs =
     map (\<lambda>s. (s, map c_amount (filter (\<lambda>r. c_spender r = s) rs))) (remdups (map c_spender rs))"

definition py_or_zero :: "double option \<Rightarrow> double" where
  "py_or_zero t = (case t of None \<Rightarrow> Fin 0 | Some x \<Rightarrow> if is_zero x then Fin 0 else x)"

definition get_totals ::
  "(double list \<Rightarrow> double option) \<Rightarrow> store \<Rightarrow> int option \<Rightarrow> int option \<Rightarrow> int option
     \<Rightarrow> (string \<rightharpoonup> double)" where
  "get_totals agg st month_f year_f day_f =
     map_of (map (\<lambda>(s, xs). (s, py_or_zero (agg xs)))
       (group_by_spender (filter (where_holds (build_where_clause month_f year_f day_f)) (rows st))))"

text \<open>One summation that \<open>agg\<close> can be: adding up from \<open>0.0\<close>, left to right.\<close>

definition left_sum :: "double list \<Rightarrow> double option" where
  "left_sum xs = (if xs = [] then None else Some (foldl fadd (Fin 0) xs))"

text \<open>
  The repository as a state machine: a call takes the store and gives what the caller
  gets back and the store afterwards. Only \<^verbatim>\<open>add\<close> writes.
\<close>

datatype call =
  Add expense
| ListAll "int option" "int option" "int option"
| GetTotals "int option" "int option" "int option"

datatype response =
  ReturnsNone
| ReturnsExpenses "expense list"
| ReturnsTotals "string \<rightharpoonup> double"
| Raises error

fun step :: "(double list \<Rightarrow> double option) \<Rightarrow> store \<Rightarrow> call \<Rightarrow> response \<times> store" where
  "step agg st (Add e) =
     (case add st e of Inl err \<Rightarrow> (Raises err, st) | Inr st' \<Rightarrow> (ReturnsNone, st'))"
| "step agg st (ListAll month_f year_f day_f) =
     (case list_all_expenses st month_f year_f day_f of
        Inl err \<Rightarrow> (Raises err, st)
      | Inr es \<Rightarrow> (ReturnsExpenses es, st))"
| "step agg st (GetTotals month_f year_f day_f) =
     (ReturnsTotals (get_totals agg st month_f year_f day_f), st)"

fun run :: "(double list \<Rightarrow> double option) \<Rightarrow> store \<Rightarrow> call list \<Rightarrow> store" where
  "run agg st [] = st"
| "run agg st (c # cs) = run agg (snd (step agg st c)) cs"

text \<open>
  The rows that \<^verbatim>\<open>add\<close> writes: distinct keys, and a date column that holds the ISO text
  of a calendar date.
\<close>

definition wf_row :: "row \<Rightarrow> bool" where
  "wf_row r =
     (case parse_iso_date (c_date r) of None \<Rightarrow> False | Some d \<Rightarrow> isoformat d = c_date r)"

definition wf_store :: "store \<Rightarrow> bool" where
  "wf_store st = (list_all wf_row (rows st) \<and> distinct (map c_id (rows st)))"

text \<open>Calendar order of two dates.\<close>

definition date_less :: "date \<Rightarrow> date \<Rightarrow> bool" where
  "date_less a b =
     (year a < year b \<or> (year a = year b \<and>
        (month a < month b \<or> (month a = month b \<and> day a < day b))))"


section \<open>Notions used in the statements\<close>

text \<open>
  \<open>swap_parties\<close> exchanges debtor and creditor in a message \<^verbatim>\<open>X owes Y amount$.\<close> and
  leaves the amount, and every other message, as it is. \<open>exact_split a b\<close> says that
  the sum of two finite values, its half and the two differences from that half are
  all computed without rounding.
\<close>

definition swap_parties :: "string \<Rightarrow> string" where
  "swap_parties m =
     (if take 18 m = ''Junit owes Shakib '' then ''Shakib owes Junit '' @ drop 18 m
      else if take 18 m = ''Shakib owes Junit '' then ''Junit owes Shakib '' @ drop 18 m
      else m)"

definition exact_split :: "double \<Rightarrow> double \<Rightarrow> bool" where
  "exact_split a b =
     (case (a, b) of
        (Fin x, Fin y) \<Rightarrow>
          fadd a b = Fin (x + y) \<and>
          fdiv (Fin (x + y)) two = Fin ((x + y) / 2) \<and>
          fsub a (Fin ((x + y) / 2)) = Fin ((x - y) / 2) \<and>
          fsub b (Fin ((x + y) / 2)) = Fin ((y - x) / 2)
      | _ \<Rightarrow> False)"


section \<open>Evaluation of the arithmetic\<close>

lemma floor_rat_numeral [simp]: "\<lfloor>numeral a / numeral b :: rat\<rfloor> = numeral a div numeral b"
  by (metis floor_divide_of_int_eq of_int_numeral)
lemma ceiling_rat_numeral [simp]: "\<lceil>numeral a / numeral b :: rat\<rceil> = - (- numeral a div numeral b)"
  by (metis ceiling_def floor_divide_of_int_eq minus_divide_left of_int_minus of_int_numeral)
lemmas float_eval = round_double_def ilog2_def round_half_even_def pow2_def Let_def bit_length.simps
lemma two_eq: "two = Fin 2"
  by (simp add: two_def float_eval)
lemma tolerance_eq: "tolerance = Fin (4722366482869645 / 4722366482869645213696)"
  by (simp add: tolerance_def float_eval)
lemma digit_char_simps:
  "digit_char 0 = CHR ''0''" "digit_char 1 = CHR ''1''" "digit_char 2 = CHR ''2''"
  "digit_char 3 = CHR ''3''" "digit_char 4 = CHR ''4''" "digit_char 5 = CHR ''5''"
  "digit_char 6 = CHR ''6''" "digit_char 7 = CHR ''7''" "digit_char 8 = CHR ''8''"
  "digit_char 9 = CHR ''9''" "digit_char (Suc 0) = CHR ''1''"
  by (simp_all add: digit_char_def char_of_def bit_iff_odd)
lemmas msg_eval = compute_balance_message_def balance_message_with_def get_or_zero_def
  py_truediv_def two_eq tolerance_eq is_zero_def fsub_def fdiv_def is_nan_def is_inf_def
  fmt_2f_def digits_of.simps zfill_def digit_char_simps float_eval


section \<open>The balance calculator\<close>

text \<open>
  Claim C4. On the empty mapping, on \<^verbatim>\<open>{"Shakib": 50.0, "Junit": 50.0}\<close>, on
  \<^verbatim>\<open>{"Shakib": 100.0, "Junit": 0.0}\<close> and on \<^verbatim>\<open>{"Shakib": 0.0, "Junit": 30.0}\<close> the
  function returns the four literal messages of the specification.
\<close>

theorem balance_edge_cases:
  "compute_balance_message Map.empty = Inr ''No expenses recorded for this period.'' \<and>
   compute_balance_message [''Shakib'' \<mapsto> Fin 50, ''Junit'' \<mapsto> Fin 50]
     = Inr ''Both Shakib and Junit have spent equally. No one owes anything.'' \<and>
   compute_balance_message [''Shakib'' \<mapsto> Fin 100, ''Junit'' \<mapsto> Fin 0]
     = Inr ''Junit owes Shakib 50.00$.'' \<and>
   compute_balance_message [''Shakib'' \<mapsto> Fin 0, ''Junit'' \<mapsto> Fin 30]
     = Inr ''Shakib owes Junit 15.00$.''"
  by (simp add: msg_eval)

lemma py_truediv_two: "py_truediv x two = Inr (fdiv x two)"
  by (simp add: py_truediv_def two_eq is_zero_def)

text \<open>
  Claim C5. The function never raises, whatever the mapping; and when the two values
  (a missing key read as \<open>0.0\<close>) add up to a zero, the result is the message
  \<^verbatim>\<open>No expenses recorded for this period.\<close> whatever the division operator does, so the
  division is not reached.
\<close>

theorem zero_total_guard:
  "(\<forall>e. compute_balance_message totals \<noteq> Inl e) \<and>
   (is_zero (fadd (get_or_zero totals ''Shakib'') (get_or_zero totals ''Junit'')) \<longrightarrow>
      (\<forall>truediv. balance_message_with truediv totals
                   = Inr ''No expenses recorded for this period.''))"
  by (simp add: compute_balance_message_def balance_message_with_def py_truediv_two Let_def)

text \<open>
  The guard at \<^verbatim>\<open>{"Shakib": 5.0, "Junit": -5.0}\<close>, with a division that always raises.
\<close>

theorem zero_total_guard_witness:
  "is_zero (fadd (get_or_zero [''Shakib'' \<mapsto> Fin 5, ''Junit'' \<mapsto> Fin (- 5)] ''Shakib'')
                 (get_or_zero [''Shakib'' \<mapsto> Fin 5, ''Junit'' \<mapsto> Fin (- 5)] ''Junit'')) \<and>
   balance_message_with (\<lambda>x y. Inl ZeroDivisionError) [''Shakib'' \<mapsto> Fin 5, ''Junit'' \<mapsto> Fin (- 5)]
     = Inr ''No expenses recorded for this period.'' \<and>
   compute_balance_message [''Shakib'' \<mapsto> Fin 5, ''Junit'' \<mapsto> Fin (- 5)] \<noteq> Inl ZeroDivisionError"
  using zero_total_guard [of "[''Shakib'' \<mapsto> Fin 5, ''Junit'' \<mapsto> Fin (- 5)]"]
  by (simp add: get_or_zero_def is_zero_def round_double_def)

text \<open>
  Claim C10. Two mappings that agree on the keys \<^verbatim>\<open>Shakib\<close> and \<^verbatim>\<open>Junit\<close>, a missing
  key read as \<open>0.0\<close>, give the same result.
\<close>

theorem only_two_keys_matter:
  "get_or_zero t1 ''Shakib'' = get_or_zero t2 ''Shakib'' \<Longrightarrow>
   get_or_zero t1 ''Junit'' = get_or_zero t2 ''Junit'' \<Longrightarrow>
   compute_balance_message t1 = compute_balance_message t2"
  by (simp add: compute_balance_message_def balance_message_with_def)

text \<open>
  A mapping with the one key \<^verbatim>\<open>Shakib\<close> against one with three keys, one of them foreign.
\<close>

theorem only_two_keys_matter_witness:
  "get_or_zero [''Shakib'' \<mapsto> Fin 100] ''Shakib''
     = get_or_zero [''Shakib'' \<mapsto> Fin 100, ''Junit'' \<mapsto> Fin 0, ''Alice'' \<mapsto> Fin 7] ''Shakib'' \<and>
   get_or_zero [''Shakib'' \<mapsto> Fin 100] ''Junit''
     = get_or_zero [''Shakib'' \<mapsto> Fin 100, ''Junit'' \<mapsto> Fin 0, ''Alice'' \<mapsto> Fin 7] ''Junit'' \<and>
   compute_balance_message [''Shakib'' \<mapsto> Fin 100]
     = compute_balance_message [''Shakib'' \<mapsto> Fin 100, ''Junit'' \<mapsto> Fin 0, ''Alice'' \<mapsto> Fin 7]"
  using only_two_keys_matter [of "[''Shakib'' \<mapsto> Fin 100]"
      "[''Shakib'' \<mapsto> Fin 100, ''Junit'' \<mapsto> Fin 0, ''Alice'' \<mapsto> Fin 7]"]
  by (simp add: get_or_zero_def)

text \<open>
  Claim C8, as stated, fails where the sum is rounded: \<open>10\<^sup>1\<^sup>6 + 1\<close> rounds to \<open>10\<^sup>1\<^sup>6\<close>,
  and the two orders of the arguments print different amounts.
\<close>

theorem swap_symmetry_counterexample:
  "compute_balance_message [''Shakib'' \<mapsto> Fin 10000000000000000, ''Junit'' \<mapsto> Fin 1]
     = Inr ''Junit owes Shakib 5000000000000000.00$.'' \<and>
   compute_balance_message [''Shakib'' \<mapsto> Fin 1, ''Junit'' \<mapsto> Fin 10000000000000000]
     = Inr ''Shakib owes Junit 4999999999999999.00$.''"
  by (simp add: msg_eval)


end
